theory Spec2Isabelle
  imports Complex_Main
begin

section \<open>Python floats\<close>

text \<open>
  A Python \<^verbatim>\<open>float\<close> is an IEEE 754 binary64 number.  A finite one is kept as its sign
  bit (\<open>True\<close> for minus, so that \<^verbatim>\<open>-0.0\<close> is a value of its own) and its exact magnitude, a
  rational number; every arithmetic operation computes the exact rational result and rounds
  it to the nearest double, ties to even (\<open>rnd\<close>), as the hardware does.
\<close>

datatype pyfloat = Finite bool rat | Infinity bool | NaN

datatype py_error = ZeroDivisionError | KeyError string | ValueError

text \<open>\<open>nlog b n\<close> is the number of times \<open>n\<close> can be divided by \<open>b\<close> before it drops
  below \<open>b\<close>: the floor of the logarithm, for \<open>n \<ge> 1\<close>.\<close>

function nlog :: "int \<Rightarrow> int \<Rightarrow> int" where
  "nlog b n = (if b < 2 \<or> n < b then 0 else 1 + nlog b (n div b))"
  by pat_completeness auto
termination
proof (relation "measure (\<lambda>(b, n). nat n)")
  fix b n :: int
  assume "\<not> (b < 2 \<or> n < b)"
  then have "0 < n" and "1 < b" by simp_all
  then have "n div b < n" by (rule int_div_less_self)
  with \<open>0 < n\<close> show "((b, n div b), (b, n)) \<in> measure (\<lambda>(b, n). nat n)" by simp
qed simp

declare nlog.simps [simp del]

text \<open>The floor of the base-\<open>b\<close> logarithm of a positive rational.\<close>

definition ilog :: "int \<Rightarrow> rat \<Rightarrow> int" where
  "ilog b q = (case quotient_of q of (n, d) \<Rightarrow>
     let e = nlog b n - nlog b d
     in if of_int b powi e \<le> q then e else e - 1)"

definition round_half_even :: "rat \<Rightarrow> int" where
  "round_half_even q = (let f = \<lfloor>q\<rfloor>; r = q - of_int f
     in if r < 1/2 then f else if 1/2 < r then f + 1 else if even f then f else f + 1)"

text \<open>Rounding of a non-negative magnitude to 53 significant bits, with the gradual
  underflow of the subnormal range (the unit in the last place never drops below
  \<open>2 powi (-1074)\<close>); the exponent is not bounded above here, \<open>pack\<close> does that.\<close>

definition rnd :: "rat \<Rightarrow> rat" where
  "rnd q = (if q \<le> 0 then 0 else
     let u = 2 powi (max (ilog 2 q) (- 1022) - 52)
     in of_int (round_half_even (q / u)) * u)"

text \<open>The least magnitude that is too large for a double once rounded.\<close>

definition overflow_bound :: rat where
  "overflow_bound = 2 ^ 1024"

definition pack :: "bool \<Rightarrow> rat \<Rightarrow> pyfloat" where
  "pack s q = (let r = rnd q in if overflow_bound \<le> r then Infinity s else Finite s r)"

text \<open>A float literal of the source text, such as \<^verbatim>\<open>1e-6\<close> or \<^verbatim>\<open>60.0\<close>: the double nearest
  to the decimal number written.\<close>

definition float_lit :: "rat \<Rightarrow> pyfloat" where
  "float_lit q = pack (q < 0) \<bar>q\<bar>"

definition is_double :: "pyfloat \<Rightarrow> bool" where
  "is_double x = (case x of Finite s m \<Rightarrow> 0 \<le> m \<and> m < overflow_bound \<and> rnd m = m | _ \<Rightarrow> True)"

definition is_finite :: "pyfloat \<Rightarrow> bool" where
  "is_finite x = (case x of Finite s m \<Rightarrow> True | _ \<Rightarrow> False)"

definition signed :: "bool \<Rightarrow> rat \<Rightarrow> rat" where
  "signed s m = (if s then - m else m)"

text \<open>\<^verbatim>\<open>x * y\<close>: never raises; an overflow gives an infinity.\<close>

fun fmul :: "pyfloat \<Rightarrow> pyfloat \<Rightarrow> pyfloat" where
  "fmul NaN y = NaN"
| "fmul x NaN = NaN"
| "fmul (Infinity s) (Infinity t) = Infinity (s \<noteq> t)"
| "fmul (Infinity s) (Finite t n) = (if n = 0 then NaN else Infinity (s \<noteq> t))"
| "fmul (Finite s m) (Infinity t) = (if m = 0 then NaN else Infinity (s \<noteq> t))"
| "fmul (Finite s m) (Finite t n) = pack (s \<noteq> t) (m * n)"

text \<open>\<^verbatim>\<open>x / y\<close>: raises \<^verbatim>\<open>ZeroDivisionError\<close> when the divisor is a zero, whatever the
  dividend is.\<close>

fun fdiv :: "pyfloat \<Rightarrow> pyfloat \<Rightarrow> py_error + pyfloat" where
  "fdiv x (Finite t n) =
     (if n = 0 then Inl ZeroDivisionError
      else case x of
        NaN \<Rightarrow> Inr NaN
      | Infinity s \<Rightarrow> Inr (Infinity (s \<noteq> t))
      | Finite s m \<Rightarrow> Inr (pack (s \<noteq> t) (m / n)))"
| "fdiv x NaN = Inr NaN"
| "fdiv NaN (Infinity t) = Inr NaN"
| "fdiv (Infinity s) (Infinity t) = Inr NaN"
| "fdiv (Finite s m) (Infinity t) = Inr (Finite (s \<noteq> t) 0)"

text \<open>\<^verbatim>\<open>abs(x)\<close>, \<^verbatim>\<open>x < y\<close> and \<^verbatim>\<open>x != 0\<close>.  A comparison with a NaN is false, so
  \<^verbatim>\<open>!=\<close> with a NaN is true.\<close>

fun fabs :: "pyfloat \<Rightarrow> pyfloat" where
  "fabs (Finite s m) = Finite False m"
| "fabs (Infinity s) = Infinity False"
| "fabs NaN = NaN"

fun flt :: "pyfloat \<Rightarrow> pyfloat \<Rightarrow> bool" where
  "flt NaN y = False"
| "flt x NaN = False"
| "flt (Infinity s) (Infinity t) = (s \<and> \<not> t)"
| "flt (Infinity s) (Finite t n) = s"
| "flt (Finite s m) (Infinity t) = (\<not> t)"
| "flt (Finite s m) (Finite t n) = (signed s m < signed t n)"

fun fne_zero :: "pyfloat \<Rightarrow> bool" where
  "fne_zero (Finite s m) = (m \<noteq> 0)"
| "fne_zero x = True"

text \<open>A Python \<^verbatim>\<open>int\<close> next to a float in a comparison is compared by its exact value.\<close>

definition of_pyint :: "int \<Rightarrow> pyfloat" where
  "of_pyint i = Finite (i < 0) \<bar>of_int i\<bar>"

text \<open>\<^verbatim>\<open>10**(-thresh)\<close> with a positive \<^verbatim>\<open>int\<close> \<^verbatim>\<open>thresh\<close> is a float, the double nearest to
  the power; \<^verbatim>\<open>10**thresh\<close> stays an \<^verbatim>\<open>int\<close>.\<close>

definition pow10_neg :: "nat \<Rightarrow> pyfloat" where
  "pow10_neg t = float_lit (1 / 10 ^ t)"

text \<open>\<^verbatim>\<open>pd.isna\<close> of a float.\<close>

fun isna :: "pyfloat \<Rightarrow> bool" where
  "isna NaN = True"
| "isna x = False"

section \<open>Formatting a float\<close>

definition digit_char :: "int \<Rightarrow> char" where
  "digit_char d = ''0123456789'' ! nat d"

text \<open>The decimal digits of a non-negative integer.\<close>

function dec :: "int \<Rightarrow> string" where
  "dec n = (if n < 10 then [digit_char n] else dec (n div 10) @ [digit_char (n mod 10)])"
  by pat_completeness auto
termination
proof (relation "measure nat")
  fix n :: int
  assume "\<not> n < 10"
  then have "0 < n" and "(1::int) < 10" by simp_all
  then have "n div 10 < n" by (rule int_div_less_self)
  with \<open>0 < n\<close> show "(n div 10, n) \<in> measure nat" by simp
qed simp

declare dec.simps [simp del]

definition zero_pad :: "nat \<Rightarrow> string \<Rightarrow> string" where
  "zero_pad w ds = replicate (w - length ds) (CHR ''0'') @ ds"

definition sign_str :: "bool \<Rightarrow> string" where
  "sign_str s = (if s then ''-'' else '''')"

text \<open>The presentation type \<^verbatim>\<open>f\<close> with precision \<open>d\<close>, on a magnitude: the exact value is
  rounded to \<open>d\<close> decimals, ties to even, and no point is written when \<open>d = 0\<close>.\<close>

definition fixed_digits :: "nat \<Rightarrow> rat \<Rightarrow> string" where
  "fixed_digits d m =
     (let ds = zero_pad (d + 1) (dec (round_half_even (m * 10 ^ d)));
          k = length ds - d
      in if d = 0 then ds else take k ds @ ''.'' @ drop k ds)"

text \<open>The presentation type \<^verbatim>\<open>e\<close> with precision \<open>d\<close>, on a magnitude: one digit, the point,
  \<open>d\<close> digits, and an exponent of at least two digits with its sign.\<close>

definition sci_parts :: "nat \<Rightarrow> rat \<Rightarrow> int \<times> int" where
  "sci_parts d m =
     (if m = 0 then (0, 0)
      else let e = ilog 10 m; n = round_half_even (m / 10 powi (e - int d))
           in if n = 10 ^ (d + 1) then (10 ^ d, e + 1) else (n, e))"

definition sci_digits :: "nat \<Rightarrow> rat \<Rightarrow> string" where
  "sci_digits d m =
     (case sci_parts d m of (n, e) \<Rightarrow>
        (case zero_pad (d + 1) (dec n) of
           [] \<Rightarrow> []
         | c # cs \<Rightarrow> c # (if d = 0 then [] else ''.'' @ cs))
        @ ''e'' @ (if e < 0 then ''-'' else ''+'') @ zero_pad 2 (dec \<bar>e\<bar>))"

fun format_f :: "nat \<Rightarrow> pyfloat \<Rightarrow> string" where
  "format_f d (Finite s m) = sign_str s @ fixed_digits d m"
| "format_f d (Infinity s) = sign_str s @ ''inf''"
| "format_f d NaN = ''nan''"

fun format_e :: "nat \<Rightarrow> pyfloat \<Rightarrow> string" where
  "format_e d (Finite s m) = sign_str s @ sci_digits d m"
| "format_e d (Infinity s) = sign_str s @ ''inf''"
| "format_e d NaN = ''nan''"

text \<open>The sidebar options \<^verbatim>\<open>decimals\<close>, \<^verbatim>\<open>sci_for_large\<close> and \<^verbatim>\<open>thresh\<close>, which \<^verbatim>\<open>fmt\<close>
  reads as globals, are its first argument here.\<close>

record format_config =
  decimals :: nat
  sci_for_large :: bool
  thresh :: nat

definition fmt :: "format_config \<Rightarrow> pyfloat \<Rightarrow> string" where
  "fmt cfg x =
     (if isna x then ''''
      else if sci_for_large cfg \<and>
              (flt (of_pyint (10 ^ thresh cfg)) (fabs x) \<or>
               (fne_zero x \<and> flt (fabs x) (pow10_neg (thresh cfg))))
           then format_e (decimals cfg) x
      else format_f (decimals cfg) x)"

section \<open>The unit table\<close>

definition ethen :: "'e + 'a \<Rightarrow> ('a \<Rightarrow> 'e + 'b) \<Rightarrow> 'e + 'b" where
  "ethen r f = (case r of Inl e \<Rightarrow> Inl e | Inr v \<Rightarrow> f v)"

record unit_fns =
  to_base :: "pyfloat \<Rightarrow> py_error + pyfloat"
  from_base :: "pyfloat \<Rightarrow> py_error + pyfloat"

text \<open>Text is a list of code points below 256; the micro sign is U+00B5.\<close>

definition micro :: char where
  "micro = CHR 0xB5"

definition UNITS :: "(string \<times> unit_fns) list" where
  "UNITS =
   [(''L/min'', \<lparr>to_base = (\<lambda>x. Inr x), from_base = (\<lambda>x. Inr x)\<rparr>),
    (''mL/min'', \<lparr>to_base = (\<lambda>x. fdiv x (float_lit 1000)),
                 from_base = (\<lambda>x. Inr (fmul x (float_lit 1000)))\<rparr>),
    (micro # ''L/min'', \<lparr>to_base = (\<lambda>x. Inr (fmul x (float_lit (1 / 10 ^ 6)))),
                         from_base = (\<lambda>x. fdiv x (float_lit (1 / 10 ^ 6)))\<rparr>),
    (''uL/min'', \<lparr>to_base = (\<lambda>x. Inr (fmul x (float_lit (1 / 10 ^ 6)))),
                 from_base = (\<lambda>x. fdiv x (float_lit (1 / 10 ^ 6)))\<rparr>),
    (''nL/min'', \<lparr>to_base = (\<lambda>x. Inr (fmul x (float_lit (1 / 10 ^ 9)))),
                 from_base = (\<lambda>x. fdiv x (float_lit (1 / 10 ^ 9)))\<rparr>),
    (''L/h'', \<lparr>to_base = (\<lambda>x. fdiv x (float_lit 60)),
              from_base = (\<lambda>x. Inr (fmul x (float_lit 60)))\<rparr>),
    (''mL/h'', \<lparr>to_base = (\<lambda>x. ethen (fdiv x (float_lit 1000)) (\<lambda>y. fdiv y (float_lit 60))),
               from_base = (\<lambda>x. Inr (fmul (fmul x (float_lit 60)) (float_lit 1000)))\<rparr>),
    (micro # ''L/h'',
       \<lparr>to_base = (\<lambda>x. fdiv (fmul x (float_lit (1 / 10 ^ 6))) (float_lit 60)),
        from_base = (\<lambda>x. fdiv (fmul x (float_lit 60)) (float_lit (1 / 10 ^ 6)))\<rparr>),
    (''uL/h'',
       \<lparr>to_base = (\<lambda>x. fdiv (fmul x (float_lit (1 / 10 ^ 6))) (float_lit 60)),
        from_base = (\<lambda>x. fdiv (fmul x (float_lit 60)) (float_lit (1 / 10 ^ 6)))\<rparr>)]"

text \<open>\<^verbatim>\<open>UNITS[k]\<close>: a missing key raises \<^verbatim>\<open>KeyError\<close>.\<close>

definition units_get :: "string \<Rightarrow> py_error + unit_fns" where
  "units_get k = (case map_of UNITS k of None \<Rightarrow> Inl (KeyError k) | Some u \<Rightarrow> Inr u)"

definition DISPLAY_UNITS :: "string list" where
  "DISPLAY_UNITS =
     [''L/min'', ''mL/min'', micro # ''L/min'', ''nL/min'', ''L/h'', ''mL/h'', micro # ''L/h'']"

definition ALIAS :: "(string \<times> string) list" where
  "ALIAS = [(''uL/min'', micro # ''L/min''), (''uL/h'', micro # ''L/h'')]"

text \<open>\<^verbatim>\<open>ALIAS.get(u, u)\<close>.\<close>

definition alias_get :: "string \<Rightarrow> string" where
  "alias_get u = (case map_of ALIAS u of None \<Rightarrow> u | Some v \<Rightarrow> v)"

section \<open>Single value conversion\<close>

record row =
  Unit :: string
  Value :: pyfloat
  Formatted :: string

text \<open>The loop over \<^verbatim>\<open>DISPLAY_UNITS\<close> that appends to \<^verbatim>\<open>rows\<close>.\<close>

fun single_rows :: "format_config \<Rightarrow> pyfloat \<Rightarrow> string list \<Rightarrow> row list \<Rightarrow> py_error + row list" where
  "single_rows cfg base [] rows = Inr rows"
| "single_rows cfg base (out_unit # rest) rows =
     ethen (units_get out_unit) (\<lambda>u.
     ethen (from_base u base) (\<lambda>converted.
     single_rows cfg base rest
       (rows @ [\<lparr>Unit = out_unit, Value = converted, Formatted = fmt cfg converted\<rparr>])))"

text \<open>What the single-value section shows: the \<^verbatim>\<open>**Input:**\<close> line and the table
  \<^verbatim>\<open>df_single\<close>.\<close>

record single_view =
  input_line :: string
  df_single :: "row list"

definition convert_single :: "format_config \<Rightarrow> pyfloat \<Rightarrow> string \<Rightarrow> py_error + single_view" where
  "convert_single cfg v in_unit =
     (let display_in_unit = alias_get in_unit
      in ethen (units_get in_unit) (\<lambda>u.
         ethen (to_base u v) (\<lambda>base.
         ethen (single_rows cfg base DISPLAY_UNITS []) (\<lambda>rows.
         Inr \<lparr>input_line = ''**Input:** '' @ fmt cfg v @ '' '' @ display_in_unit,
              df_single = rows\<rparr>))))"

section \<open>Text\<close>

text \<open>\<^verbatim>\<open>str.isspace\<close> on the code points below 256, which \<^verbatim>\<open>str.strip()\<close> removes at both
  ends.\<close>

definition py_isspace :: "char \<Rightarrow> bool" where
  "py_isspace c = ((of_char c :: nat) \<in> {9, 10, 11, 12, 13, 28, 29, 30, 31, 32, 133, 160})"

definition strip :: "string \<Rightarrow> string" where
  "strip s = rev (dropWhile py_isspace (rev (dropWhile py_isspace s)))"

text \<open>\<^verbatim>\<open>str.splitlines()\<close>: a line ends at \<^verbatim>\<open>\n\<close>, \<^verbatim>\<open>\r\<close>, \<^verbatim>\<open>\r\n\<close>, \<^verbatim>\<open>\v\<close>, \<^verbatim>\<open>\f\<close>,
  \<^verbatim>\<open>\x1c\<close>, \<^verbatim>\<open>\x1d\<close>, \<^verbatim>\<open>\x1e\<close> or \<^verbatim>\<open>\x85\<close>; the separators are dropped, and a text that
  ends with one has no empty last line.\<close>

definition is_linebreak :: "char \<Rightarrow> bool" where
  "is_linebreak c = ((of_char c :: nat) \<in> {10, 11, 12, 13, 28, 29, 30, 133})"

fun splitlines_from :: "string \<Rightarrow> string \<Rightarrow> string list" where
  "splitlines_from cur [] = (if cur = [] then [] else [cur])"
| "splitlines_from cur (c # cs) =
     (if c = CHR 0x0D then
        (case cs of
           [] \<Rightarrow> [cur]
         | d # ds \<Rightarrow> if d = CHR 0x0A then cur # splitlines_from [] ds
                    else cur # splitlines_from [] cs)
      else if is_linebreak c then cur # splitlines_from [] cs
      else splitlines_from (cur @ [c]) cs)"

definition splitlines :: "string \<Rightarrow> string list" where
  "splitlines s = splitlines_from [] s"

text \<open>\<^verbatim>\<open>s.replace(",", "")\<close>.\<close>

definition remove_commas :: "string \<Rightarrow> string" where
  "remove_commas s = filter (\<lambda>c. c \<noteq> CHR '','') s"

section \<open>\<^verbatim>\<open>float(s)\<close>\<close>

text \<open>
  The built-in \<^verbatim>\<open>float\<close> on a string, as CPython implements it: in a string that is not
  pure ASCII, white space becomes a blank and any other character from U+007F on becomes
  \<^verbatim>\<open>?\<close> (there is no decimal digit between U+007F and U+00FF); the ASCII white space at both
  ends is dropped; an underscore may stand between two digits; what is left is an optional
  sign followed by \<^verbatim>\<open>inf\<close>, \<^verbatim>\<open>infinity\<close> or \<^verbatim>\<open>nan\<close> in any case, or by a decimal number with
  an optional exponent.  The decimal number is rounded to the nearest double.  Anything else
  raises \<^verbatim>\<open>ValueError\<close>.
\<close>

definition is_digit :: "char \<Rightarrow> bool" where
  "is_digit c = (48 \<le> (of_char c :: nat) \<and> (of_char c :: nat) \<le> 57)"

definition digit_val :: "char \<Rightarrow> int" where
  "digit_val c = int (of_char c) - 48"

fun digits_val :: "int \<Rightarrow> string \<Rightarrow> int" where
  "digits_val acc [] = acc"
| "digits_val acc (c # cs) = digits_val (10 * acc + digit_val c) cs"

definition to_lower :: "char \<Rightarrow> char" where
  "to_lower c = (if 65 \<le> (of_char c :: nat) \<and> (of_char c :: nat) \<le> 90
                 then char_of ((of_char c :: nat) + 32) else c)"

definition to_ascii :: "string \<Rightarrow> string" where
  "to_ascii s =
     (if list_all (\<lambda>c. (of_char c :: nat) < 128) s then s
      else map (\<lambda>c. if (of_char c :: nat) < 127 then c
                     else if py_isspace c then CHR '' '' else CHR ''?'') s)"

definition c_isspace :: "char \<Rightarrow> bool" where
  "c_isspace c = ((of_char c :: nat) \<in> {9, 10, 11, 12, 13, 32})"

definition c_strip :: "string \<Rightarrow> string" where
  "c_strip s = rev (dropWhile c_isspace (rev (dropWhile c_isspace s)))"

text \<open>The underscores: each one after a digit and before a digit.  The result is the text
  without them, or \<open>None\<close> where one is misplaced.\<close>

fun strip_underscores :: "char \<Rightarrow> string \<Rightarrow> string option" where
  "strip_underscores prev [] = (if prev = CHR ''_'' then None else Some [])"
| "strip_underscores prev (c # cs) =
     (if c = CHR ''_'' then
        (if is_digit prev then strip_underscores c cs else None)
      else if prev = CHR ''_'' \<and> \<not> is_digit c then None
      else map_option ((#) c) (strip_underscores c cs))"

definition split_sign :: "string \<Rightarrow> bool \<times> string" where
  "split_sign s =
     (case s of
        [] \<Rightarrow> (False, [])
      | c # cs \<Rightarrow> if c = CHR ''-'' then (True, cs)
                 else if c = CHR ''+'' then (False, cs) else (False, s))"

text \<open>The exponent part at the head of a text: its value and the rest, or \<open>None\<close> when
  there is no well-formed exponent there.\<close>

definition parse_exponent :: "string \<Rightarrow> (int \<times> string) option" where
  "parse_exponent s =
     (case s of
        [] \<Rightarrow> None
      | c # cs \<Rightarrow>
          if c = CHR ''e'' \<or> c = CHR ''E'' then
            (case split_sign cs of (neg, r) \<Rightarrow>
               let ds = takeWhile is_digit r
               in if ds = [] then None
                  else Some (if neg then - digits_val 0 ds else digits_val 0 ds,
                             dropWhile is_digit r))
          else None)"

text \<open>An unsigned decimal number that fills the whole text: its exact value.\<close>

definition parse_decimal :: "string \<Rightarrow> rat option" where
  "parse_decimal s =
     (let ip = takeWhile is_digit s; r1 = dropWhile is_digit s;
          has_point = (r1 \<noteq> [] \<and> hd r1 = CHR ''.'');
          fp = (if has_point then takeWhile is_digit (tl r1) else []);
          r2 = (if has_point then dropWhile is_digit (tl r1) else r1)
      in if ip = [] \<and> fp = [] then None
         else
           (case (if r2 = [] then Some (0, []) else parse_exponent r2) of
              None \<Rightarrow> None
            | Some (ex, r3) \<Rightarrow>
                if r3 = [] then
                  Some (of_int (digits_val 0 (ip @ fp)) * 10 powi (ex - int (length fp)))
                else None))"

definition py_float :: "string \<Rightarrow> py_error + pyfloat" where
  "py_float s0 =
     (case strip_underscores (CHR 0x00) (c_strip (to_ascii s0)) of
        None \<Rightarrow> Inl ValueError
      | Some s \<Rightarrow>
          (case split_sign s of (neg, body) \<Rightarrow>
             let low = map to_lower body
             in if low = ''inf'' \<or> low = ''infinity'' then Inr (Infinity neg)
                else if low = ''nan'' then Inr NaN
                else (case parse_decimal body of
                        None \<Rightarrow> Inl ValueError
                      | Some q \<Rightarrow> Inr (pack neg q))))"

section \<open>Batch conversion\<close>

text \<open>What the page shows, in order.  A warning keeps the line number and the line that
  its message is built from (\<^verbatim>\<open>f"Line {i} is not a number: {line!r} ..."\<close>).\<close>

datatype column = Floats "pyfloat list" | Strs "string list"

type_synonym dataframe = "(string \<times> column) list"

datatype cell = FloatCell pyfloat | StrCell string

text \<open>The file that \<^verbatim>\<open>to_csv(index=False)\<close> writes: the header line as text, and the
  records as cells (how pandas prints a float in a cell is not part of this theory).\<close>

record csv_file =
  header :: string
  records :: "cell list list"

datatype ui_event =
    Warning nat string
  | Info string
  | ShowDataframe dataframe
  | DownloadButton csv_file

text \<open>The loop over \<^verbatim>\<open>enumerate(raw.splitlines(), start=1)\<close>: \<open>i\<close> is the number of the line
  at the head of the list.\<close>

fun parse_lines ::
  "nat \<Rightarrow> string list \<Rightarrow> pyfloat list \<Rightarrow> ui_event list \<Rightarrow> py_error + (pyfloat list \<times> ui_event list)" where
  "parse_lines i [] vals evs = Inr (vals, evs)"
| "parse_lines i (line # rest) vals evs =
     (let s = remove_commas (strip line)
      in if s = [] then parse_lines (Suc i) rest vals evs
         else (case py_float s of
                 Inr v \<Rightarrow> parse_lines (Suc i) rest (vals @ [v]) evs
               | Inl e \<Rightarrow>
                   if e = ValueError then parse_lines (Suc i) rest vals (evs @ [Warning i line])
                   else Inl e))"

text \<open>A list comprehension whose body may raise.\<close>

fun map_err :: "('a \<Rightarrow> 'e + 'b) \<Rightarrow> 'a list \<Rightarrow> 'e + 'b list" where
  "map_err f [] = Inr []"
| "map_err f (x # xs) = ethen (f x) (\<lambda>y. ethen (map_err f xs) (\<lambda>ys. Inr (y # ys)))"

text \<open>\<^verbatim>\<open>data[k] = v\<close> on a dict, which keeps the order of first insertion.\<close>

fun dict_set :: "('k \<times> 'v) list \<Rightarrow> 'k \<Rightarrow> 'v \<Rightarrow> ('k \<times> 'v) list" where
  "dict_set [] k v = [(k, v)]"
| "dict_set ((k', v') # kvs) k v =
     (if k' = k then (k, v) # kvs else (k', v') # dict_set kvs k v)"

text \<open>The loop over \<^verbatim>\<open>DISPLAY_UNITS\<close> that fills \<^verbatim>\<open>data\<close>.\<close>

fun fill_units ::
  "format_config \<Rightarrow> pyfloat list \<Rightarrow> string list \<Rightarrow> dataframe \<Rightarrow> py_error + dataframe" where
  "fill_units cfg base_vals [] data = Inr data"
| "fill_units cfg base_vals (out_unit # rest) data =
     ethen (map_err (\<lambda>b. ethen (units_get out_unit) (\<lambda>u. from_base u b)) base_vals) (\<lambda>conv.
     fill_units cfg base_vals rest
       (dict_set (dict_set data out_unit (Floats conv))
          (out_unit @ '' (fmt)'') (Strs (map (fmt cfg) conv))))"

text \<open>\<^verbatim>\<open>df[cols]\<close>: the named columns in the order asked for; a missing one raises
  \<^verbatim>\<open>KeyError\<close>.\<close>

definition df_select :: "string list \<Rightarrow> dataframe \<Rightarrow> py_error + dataframe" where
  "df_select cols df =
     map_err (\<lambda>c. case map_of df c of None \<Rightarrow> Inl (KeyError c) | Some col \<Rightarrow> Inr (c, col)) cols"

definition column_cells :: "column \<Rightarrow> cell list" where
  "column_cells col = (case col of Floats xs \<Rightarrow> map FloatCell xs | Strs xs \<Rightarrow> map StrCell xs)"

definition nrows :: "dataframe \<Rightarrow> nat" where
  "nrows df = (case df of [] \<Rightarrow> 0 | (k, col) # rest \<Rightarrow> length (column_cells col))"

text \<open>A CSV field is quoted when it holds the delimiter, a quote or a line end.\<close>

definition csv_field :: "string \<Rightarrow> string" where
  "csv_field s =
     (if list_ex (\<lambda>c. c = CHR '','' \<or> c = CHR 0x22 \<or> c = CHR 0x0A \<or> c = CHR 0x0D) s
      then CHR 0x22 # concat (map (\<lambda>c. if c = CHR 0x22 then [c, c] else [c]) s) @ [CHR 0x22]
      else s)"

fun join_with :: "string \<Rightarrow> string list \<Rightarrow> string" where
  "join_with sep [] = []"
| "join_with sep [x] = x"
| "join_with sep (x # y # ys) = x @ sep @ join_with sep (y # ys)"

definition to_csv :: "dataframe \<Rightarrow> csv_file" where
  "to_csv df =
     \<lparr>header = join_with '','' (map (csv_field \<circ> fst) df),
      records = map (\<lambda>i. map (\<lambda>(k, col). column_cells col ! i) df) [0 ..< nrows df]\<rparr>"

definition show_cols :: "string list" where
  "show_cols = [''Input'', ''Input Unit''] @ map (\<lambda>u. u @ '' (fmt)'') DISPLAY_UNITS"

text \<open>The batch section of the page, for the text \<open>raw\<close> of the text area and the unit
  \<open>batch_unit\<close> of the select box.\<close>

definition batch :: "format_config \<Rightarrow> string \<Rightarrow> string \<Rightarrow> py_error + ui_event list" where
  "batch cfg raw batch_unit =
     (if strip raw \<noteq> [] then
        ethen (parse_lines 1 (splitlines raw) [] []) (\<lambda>(vals, evs).
          if vals \<noteq> [] then
            (let data = [(''Input'', Floats vals),
                         (''Input Unit'', Strs (replicate (length vals) (alias_get batch_unit)))]
             in ethen (map_err (\<lambda>v. ethen (units_get batch_unit) (\<lambda>u. to_base u v)) vals)
                  (\<lambda>base_vals.
                ethen (fill_units cfg base_vals DISPLAY_UNITS data) (\<lambda>df_batch.
                ethen (df_select show_cols df_batch) (\<lambda>shown.
                Inr (evs @ [ShowDataframe shown, DownloadButton (to_csv df_batch)])))))
          else Inr (evs @ [Info ''No valid numeric lines found.'']))
      else Inr [])"

section \<open>What the specification says about a batch\<close>

text \<open>The three things that can happen to one line: it is empty once trimmed and freed of
  commas and is passed over, it is a number, or it is not a number.\<close>

datatype line_outcome = Skipped | Parsed pyfloat | Rejected

definition classify :: "string \<Rightarrow> line_outcome" where
  "classify line =
     (let s = remove_commas (strip line)
      in if s = [] then Skipped
         else (case py_float s of Inr v \<Rightarrow> Parsed v | Inl e \<Rightarrow> Rejected))"

text \<open>The numbers of a list of lines, in the order of the lines, and the warnings for the
  lines that are not numbers, each with the number of its line, counted from \<open>i\<close>.\<close>

definition parsed_values :: "string list \<Rightarrow> pyfloat list" where
  "parsed_values lines =
     concat (map (\<lambda>l. case classify l of Parsed v \<Rightarrow> [v] | _ \<Rightarrow> []) lines)"

definition line_warnings :: "nat \<Rightarrow> string list \<Rightarrow> ui_event list" where
  "line_warnings i lines =
     concat (map (\<lambda>(k, l). case classify l of Rejected \<Rightarrow> [Warning k l] | _ \<Rightarrow> [])
               (zip [i ..< i + length lines] lines))"

text \<open>Reading the page: the table shown, its \<^verbatim>\<open>Input\<close> column, the file behind the download
  button, the warnings, and whether the information message is there.\<close>

fun shown_table :: "ui_event list \<Rightarrow> dataframe option" where
  "shown_table [] = None"
| "shown_table (ShowDataframe df # evs) = Some df"
| "shown_table (e # evs) = shown_table evs"

fun csv_of :: "ui_event list \<Rightarrow> csv_file option" where
  "csv_of [] = None"
| "csv_of (DownloadButton f # evs) = Some f"
| "csv_of (e # evs) = csv_of evs"

fun warnings_of :: "ui_event list \<Rightarrow> (nat \<times> string) list" where
  "warnings_of [] = []"
| "warnings_of (Warning k l # evs) = (k, l) # warnings_of evs"
| "warnings_of (e # evs) = warnings_of evs"

definition input_column :: "dataframe \<Rightarrow> pyfloat list" where
  "input_column df = (case map_of df ''Input'' of Some (Floats xs) \<Rightarrow> xs | _ \<Rightarrow> [])"

definition reports_no_valid :: "ui_event list \<Rightarrow> bool" where
  "reports_no_valid evs = list_ex (\<lambda>e. e = Info ''No valid numeric lines found.'') evs"

text \<open>The columns of \<^verbatim>\<open>df_batch\<close>, which \<^verbatim>\<open>to_csv\<close> writes: for every display unit the
  numbers and the formatted strings.\<close>

definition conv_column :: "string \<Rightarrow> pyfloat list \<Rightarrow> pyfloat list" where
  "conv_column k bs =
     map (\<lambda>b. case ethen (units_get k) (\<lambda>u. from_base u b) of Inr v \<Rightarrow> v | Inl e \<Rightarrow> NaN) bs"

definition unit_columns :: "format_config \<Rightarrow> pyfloat list \<Rightarrow> dataframe" where
  "unit_columns cfg bs =
     concat (map (\<lambda>k. [(k, Floats (conv_column k bs)),
                        (k @ '' (fmt)'', Strs (map (fmt cfg) (conv_column k bs)))])
               DISPLAY_UNITS)"

definition csv_cols :: "string list" where
  "csv_cols = [''Input'', ''Input Unit''] @ concat (map (\<lambda>u. [u, u @ '' (fmt)'']) DISPLAY_UNITS)"

text \<open>The events of a run, none when it raised; the base values of a list of inputs; the
  table \<^verbatim>\<open>df_batch\<close> and the part of it that is shown.\<close>

definition events_of :: "py_error + ui_event list \<Rightarrow> ui_event list" where
  "events_of r = (case r of Inr out \<Rightarrow> out | Inl e \<Rightarrow> [])"

definition base_values :: "unit_fns \<Rightarrow> pyfloat list \<Rightarrow> pyfloat list" where
  "base_values u vals = map (\<lambda>v. case to_base u v of Inr b \<Rightarrow> b | Inl e \<Rightarrow> NaN) vals"

definition df_batch_of :: "format_config \<Rightarrow> unit_fns \<Rightarrow> string \<Rightarrow> pyfloat list \<Rightarrow> dataframe" where
  "df_batch_of cfg u batch_unit vals =
     [(''Input'', Floats vals),
      (''Input Unit'', Strs (replicate (length vals) (alias_get batch_unit)))]
     @ unit_columns cfg (base_values u vals)"

definition shown_of :: "format_config \<Rightarrow> unit_fns \<Rightarrow> string \<Rightarrow> pyfloat list \<Rightarrow> dataframe" where
  "shown_of cfg u batch_unit vals =
     (''Input'', Floats vals) #
     (''Input Unit'', Strs (replicate (length vals) (alias_get batch_unit))) #
     map (\<lambda>k. (k @ '' (fmt)'', Strs (map (fmt cfg) (conv_column k (base_values u vals)))))
       DISPLAY_UNITS"

text \<open>The converted value of one input \<open>v\<close> of the unit with entry \<open>u\<close>, for the display unit
  \<open>k\<close>: \<^verbatim>\<open>UNITS[k]["from_base"](u["to_base"](v))\<close>.\<close>

definition cell_value :: "unit_fns \<Rightarrow> string \<Rightarrow> pyfloat \<Rightarrow> pyfloat" where
  "cell_value u k v =
     (case ethen (to_base u v) (\<lambda>b. ethen (units_get k) (\<lambda>w. from_base w b)) of
        Inr y \<Rightarrow> y | Inl e \<Rightarrow> NaN)"

text \<open>The quotient where the division does not raise.\<close>

definition fdiv_val :: "pyfloat \<Rightarrow> pyfloat \<Rightarrow> pyfloat" where
  "fdiv_val x y = (case fdiv x y of Inr v \<Rightarrow> v | Inl e \<Rightarrow> NaN)"

section \<open>Facts about the unit table\<close>

lemma overflow_bound_numeral [code]:
  "overflow_bound =
     179769313486231590772930519078902473361797697894230657273430081157732675805500963132708477322407536021120113879871393357658789768814416622492847430639474124377767893424865485276302219601246094119453082952085005768838150682342462881473913110540827237163350510684586298239947245938479716304835356329624224137216"
  by (simp add: overflow_bound_def)

lemma ethen_simps: "ethen (Inr v) f = f v" "ethen (Inl e) f = Inl e"
  by (simp_all add: ethen_def)

lemma units_get_simps:
  "units_get ''L/min'' = Inr \<lparr>to_base = (\<lambda>x. Inr x), from_base = (\<lambda>x. Inr x)\<rparr>"
  "units_get ''mL/min'' = Inr \<lparr>to_base = (\<lambda>x. fdiv x (float_lit 1000)),
                 from_base = (\<lambda>x. Inr (fmul x (float_lit 1000)))\<rparr>"
  "units_get (micro # ''L/min'') =
     Inr \<lparr>to_base = (\<lambda>x. Inr (fmul x (float_lit (1 / 10 ^ 6)))),
          from_base = (\<lambda>x. fdiv x (float_lit (1 / 10 ^ 6)))\<rparr>"
  "units_get ''uL/min'' =
     Inr \<lparr>to_base = (\<lambda>x. Inr (fmul x (float_lit (1 / 10 ^ 6)))),
          from_base = (\<lambda>x. fdiv x (float_lit (1 / 10 ^ 6)))\<rparr>"
  "units_get ''nL/min'' =
     Inr \<lparr>to_base = (\<lambda>x. Inr (fmul x (float_lit (1 / 10 ^ 9)))),
          from_base = (\<lambda>x. fdiv x (float_lit (1 / 10 ^ 9)))\<rparr>"
  "units_get ''L/h'' = Inr \<lparr>to_base = (\<lambda>x. fdiv x (float_lit 60)),
              from_base = (\<lambda>x. Inr (fmul x (float_lit 60)))\<rparr>"
  "units_get ''mL/h'' =
     Inr \<lparr>to_base = (\<lambda>x. ethen (fdiv x (float_lit 1000)) (\<lambda>y. fdiv y (float_lit 60))),
          from_base = (\<lambda>x. Inr (fmul (fmul x (float_lit 60)) (float_lit 1000)))\<rparr>"
  "units_get (micro # ''L/h'') =
     Inr \<lparr>to_base = (\<lambda>x. fdiv (fmul x (float_lit (1 / 10 ^ 6))) (float_lit 60)),
          from_base = (\<lambda>x. fdiv (fmul x (float_lit 60)) (float_lit (1 / 10 ^ 6)))\<rparr>"
  "units_get ''uL/h'' =
     Inr \<lparr>to_base = (\<lambda>x. fdiv (fmul x (float_lit (1 / 10 ^ 6))) (float_lit 60)),
          from_base = (\<lambda>x. fdiv (fmul x (float_lit 60)) (float_lit (1 / 10 ^ 6)))\<rparr>"
  unfolding units_get_def UNITS_def micro_def by simp_all

lemma lits:
  "float_lit 1000 = Finite False 1000"
  "float_lit 60 = Finite False 60"
  "float_lit (1 / 1000000) = Finite False (4722366482869645 / 4722366482869645213696)"
  "float_lit (1 / 1000000000) = Finite False (4835703278458517 / 4835703278458516698824704)"
  by code_simp+

lemma lit_1: "float_lit 1 = Finite False 1"
  by code_simp

lemma fdiv_eq: "n \<noteq> 0 \<Longrightarrow> fdiv x (Finite t n) = Inr (fdiv_val x (Finite t n))"
  by (cases x) (simp_all add: fdiv_val_def)

lemma single_rows_total:
  "\<exists>rows. single_rows cfg base DISPLAY_UNITS [] = Inr rows \<and> map Unit rows = DISPLAY_UNITS"
  by (simp add: DISPLAY_UNITS_def units_get_simps ethen_simps lits fdiv_eq
      del: fmul.simps fdiv.simps)

lemma unit_entry_total:
  assumes "map_of UNITS name = Some u"
  shows "\<exists>y. to_base u x = Inr y" and "\<exists>y. from_base u x = Inr y"
proof -
  have keys: "name \<in> set (map fst UNITS)"
    using assms by (metis map_of_eq_None_iff option.distinct(1) set_map)
  have get: "units_get name = Inr u"
    using assms by (simp add: units_get_def)
  show "\<exists>y. to_base u x = Inr y"
    using keys get
    by (auto simp add: UNITS_def units_get_simps lits fdiv_eq ethen_simps
        simp del: fmul.simps fdiv.simps)
  show "\<exists>y. from_base u x = Inr y"
    using keys get
    by (auto simp add: UNITS_def units_get_simps lits fdiv_eq ethen_simps
        simp del: fmul.simps fdiv.simps)
qed

section \<open>The ASCII spellings of the micro units\<close>

text \<open>
  Claim C8.  For every value and every format configuration, the single-value conversion
  from \<^verbatim>\<open>uL/min\<close> gives the same input line, the same converted values and the same
  formatted strings as the conversion from the unit spelled with the micro sign, and
  likewise for \<^verbatim>\<open>uL/h\<close>.
\<close>

theorem alias_units_equivalent:
  "convert_single cfg v ''uL/min'' = convert_single cfg v (micro # ''L/min'') \<and>
   convert_single cfg v ''uL/h'' = convert_single cfg v (micro # ''L/h'')"
  by (simp add: convert_single_def units_get_simps alias_get_def ALIAS_def)

section \<open>One litre per minute in every display unit\<close>

lemma one_to_units:
  "fmul (Finite False 1) (Finite False 1000) = Finite False 1000"
  "fdiv (Finite False 1) (Finite False (4722366482869645 / 4722366482869645213696)) =
     Inr (Finite False 1000000)"
  "fdiv (Finite False 1) (Finite False (4835703278458517 / 4835703278458516698824704)) =
     Inr (Finite False (8388607999999999 / 8388608))"
  "fmul (Finite False 1) (Finite False 60) = Finite False 60"
  "fmul (Finite False 60) (Finite False 1000) = Finite False 60000"
  "fdiv (Finite False 60) (Finite False (4722366482869645 / 4722366482869645213696)) =
     Inr (Finite False 60000000)"
  by code_simp+

lemma single_rows_one:
  "single_rows cfg (Finite False 1) DISPLAY_UNITS [] =
     Inr [\<lparr>Unit = ''L/min'', Value = Finite False 1, Formatted = fmt cfg (Finite False 1)\<rparr>,
          \<lparr>Unit = ''mL/min'', Value = Finite False 1000, Formatted = fmt cfg (Finite False 1000)\<rparr>,
          \<lparr>Unit = micro # ''L/min'', Value = Finite False 1000000,
             Formatted = fmt cfg (Finite False 1000000)\<rparr>,
          \<lparr>Unit = ''nL/min'', Value = Finite False (8388607999999999 / 8388608),
             Formatted = fmt cfg (Finite False (8388607999999999 / 8388608))\<rparr>,
          \<lparr>Unit = ''L/h'', Value = Finite False 60, Formatted = fmt cfg (Finite False 60)\<rparr>,
          \<lparr>Unit = ''mL/h'', Value = Finite False 60000, Formatted = fmt cfg (Finite False 60000)\<rparr>,
          \<lparr>Unit = micro # ''L/h'', Value = Finite False 60000000,
             Formatted = fmt cfg (Finite False 60000000)\<rparr>]"
  by (simp add: DISPLAY_UNITS_def units_get_simps ethen_simps lits one_to_units
      del: fmul.simps fdiv.simps)

text \<open>
  Claim C1.  The value 1.0 with source unit L/min, converted to every display unit.  Six of
  the seven results are the exact values 1, 1000, 1e6, 60, 60000 and 6e7.  The result for
  nL/min is \<^verbatim>\<open>1.0 / 1e-9\<close>: the double \<^verbatim>\<open>1e-9\<close> lies above the real number, the exact quotient
  lies below one thousand million by more than half a unit in the last place, and the
  rounded quotient is the double just below, \<open>10 ^ 9 - 1 / 2 ^ 23\<close>, which Python prints as
  \<^verbatim>\<open>999999999.9999999\<close>.
\<close>

theorem one_L_min_values:
  "map_sum id (\<lambda>v. map (\<lambda>r. (Unit r, Value r)) (df_single v))
       (convert_single cfg (float_lit 1) ''L/min'') =
     Inr [(''L/min'', Finite False 1), (''mL/min'', Finite False 1000),
          (micro # ''L/min'', Finite False 1000000),
          (''nL/min'', Finite False (1000000000 - 1 / 2 ^ 23)),
          (''L/h'', Finite False 60), (''mL/h'', Finite False 60000),
          (micro # ''L/h'', Finite False 60000000)] \<and>
   Finite False (1000000000 - 1 / 2 ^ 23) \<noteq> Finite False 1000000000"
  by (simp add: convert_single_def units_get_simps ethen_simps lit_1 single_rows_one)

section \<open>The conversions never raise\<close>

text \<open>
  Claim C9.  For every unit of the table and every float, zero and negative values
  included, \<^verbatim>\<open>to_base\<close> and \<^verbatim>\<open>from_base\<close> return a float, and the single-value conversion
  returns a row for every display unit: the only operation that can raise is a division,
  and every divisor is a non-zero constant.
\<close>

theorem conversion_total:
  assumes "map_of UNITS name = Some u"
  shows "(\<exists>y. to_base u x = Inr y) \<and> (\<exists>y. from_base u x = Inr y) \<and>
         (\<exists>v. convert_single cfg x name = Inr v \<and> map Unit (df_single v) = DISPLAY_UNITS)"
proof -
  have get: "units_get name = Inr u"
    using assms by (simp add: units_get_def)
  have tb: "\<exists>y. to_base u x = Inr y" and fb: "\<exists>y. from_base u x = Inr y"
    using unit_entry_total [OF assms] by blast+
  from tb obtain b where b: "to_base u x = Inr b" ..
  obtain rows where "single_rows cfg b DISPLAY_UNITS [] = Inr rows" "map Unit rows = DISPLAY_UNITS"
    using single_rows_total by blast
  with b get have "\<exists>v. convert_single cfg x name = Inr v \<and> map Unit (df_single v) = DISPLAY_UNITS"
    by (simp add: convert_single_def ethen_simps)
  with tb fb show ?thesis by blast
qed

theorem conversion_total_witness:
  "map_of UNITS ''L/h'' =
     Some \<lparr>to_base = (\<lambda>x. fdiv x (float_lit 60)), from_base = (\<lambda>x. Inr (fmul x (float_lit 60)))\<rparr> \<and>
   (\<exists>y. fdiv (Finite True 3) (float_lit 60) = Inr y) \<and>
   (\<exists>v. convert_single \<lparr>decimals = 3, sci_for_large = True, thresh = 6\<rparr> (Finite True 3) ''L/h'' = Inr v \<and>
        map Unit (df_single v) = DISPLAY_UNITS)"
proof -
  have h: "map_of UNITS ''L/h'' =
     Some \<lparr>to_base = (\<lambda>x. fdiv x (float_lit 60)), from_base = (\<lambda>x. Inr (fmul x (float_lit 60)))\<rparr>"
    by (simp add: UNITS_def)
  from conversion_total [OF h, of "Finite True 3" "\<lparr>decimals = 3, sci_for_large = True, thresh = 6\<rparr>"]
  show ?thesis using h by simp
qed

section \<open>The batch loop, line by line\<close>

lemma py_float_error: "py_float s = Inl e \<Longrightarrow> e = ValueError"
  by (auto simp add: py_float_def Let_def split: option.splits prod.splits if_splits)

lemma zip_upt_Cons:
  "zip [i ..< i + length (l # ls)] (l # ls) = (i, l) # zip [Suc i ..< Suc i + length ls] ls"
proof -
  have h: "[i ..< i + length (l # ls)] = i # [Suc i ..< Suc i + length ls]"
    by (subst upt_rec) simp
  show ?thesis unfolding h by simp
qed

lemma parsed_values_Cons:
  "parsed_values (l # ls) = (case classify l of Parsed v \<Rightarrow> [v] | _ \<Rightarrow> []) @ parsed_values ls"
  by (simp add: parsed_values_def)

lemma line_warnings_Cons:
  "line_warnings i (l # ls) =
     (case classify l of Rejected \<Rightarrow> [Warning i l] | _ \<Rightarrow> []) @ line_warnings (Suc i) ls"
  unfolding line_warnings_def zip_upt_Cons by simp

lemma parse_lines_eq:
  "parse_lines i lines vals evs = Inr (vals @ parsed_values lines, evs @ line_warnings i lines)"
proof (induction lines arbitrary: i vals evs)
  case Nil
  show ?case by (simp add: parsed_values_def line_warnings_def)
next
  case (Cons l ls)
  show ?case
  proof (cases "remove_commas (strip l) = []")
    case True
    then show ?thesis
      by (simp add: Cons.IH parsed_values_Cons line_warnings_Cons classify_def)
  next
    case False
    show ?thesis
    proof (cases "py_float (remove_commas (strip l))")
      case (Inl e)
      then have "e = ValueError" by (rule py_float_error)
      with Inl False show ?thesis
        by (simp add: Cons.IH parsed_values_Cons line_warnings_Cons classify_def)
    next
      case (Inr v)
      with False show ?thesis
        by (simp add: Cons.IH parsed_values_Cons line_warnings_Cons classify_def)
    qed
  qed
qed

lemma strip_empty_skipped: "strip line = [] \<Longrightarrow> classify line = Skipped"
  by (simp add: classify_def remove_commas_def)

text \<open>
  Claim C4.  In the batch loop every line is trimmed; a line that is empty once trimmed is
  passed over without a warning and without a row; a line that is not a number gives exactly
  one warning, with its line number counted from one and the line as it was typed, and no
  row; and the loop always runs to the end of the lines.
\<close>

theorem batch_line_policy:
  "parse_lines 1 lines [] [] = Inr (parsed_values lines, line_warnings 1 lines) \<and>
   (strip line = [] \<longrightarrow> classify line = Skipped)"
  by (simp add: parse_lines_eq strip_empty_skipped)

theorem batch_line_policy_witness:
  "strip ''  '' = [] \<and> classify ''  '' = Skipped \<and>
   parse_lines 1 [''  '', ''abc'', '' 1,000 '', ''x''] [] [] =
     Inr ([Finite False 1000], [Warning 2 ''abc'', Warning 4 ''x''])"
proof -
  have a: "parsed_values [''  '', ''abc'', '' 1,000 '', ''x''] = [Finite False 1000]"
    by code_simp
  have b: "line_warnings 1 [''  '', ''abc'', '' 1,000 '', ''x''] = [Warning 2 ''abc'', Warning 4 ''x'']"
    by code_simp
  have c: "strip ''  '' = []"
    by code_simp
  from batch_line_policy [of "[''  '', ''abc'', '' 1,000 '', ''x'']" "''  ''"] a b c
  show ?thesis by simp
qed

section \<open>The batch section as a whole\<close>

lemma map_err_Inr: "map_err (\<lambda>x. Inr (g x)) xs = Inr (map g xs)"
  by (induction xs) (simp_all add: ethen_simps)

lemma fill_units_eq:
  "fill_units cfg bs DISPLAY_UNITS [(''Input'', a), (''Input Unit'', b)] =
     Inr ((''Input'', a) # (''Input Unit'', b) # unit_columns cfg bs)"
  by (simp add: DISPLAY_UNITS_def unit_columns_def conv_column_def
        units_get_simps [unfolded micro_def] ethen_simps lits fdiv_eq map_err_Inr micro_def
      del: fmul.simps fdiv.simps)

lemma df_select_show:
  "df_select show_cols ((''Input'', a) # (''Input Unit'', b) # unit_columns cfg bs) =
     Inr ((''Input'', a) # (''Input Unit'', b) #
          map (\<lambda>k. (k @ '' (fmt)'', Strs (map (fmt cfg) (conv_column k bs)))) DISPLAY_UNITS)"
  by (simp add: df_select_def show_cols_def DISPLAY_UNITS_def unit_columns_def ethen_simps micro_def)

lemma to_base_total:
  assumes "map_of UNITS name = Some u"
  shows "map_err (\<lambda>v. ethen (units_get name) (\<lambda>u. to_base u v)) vals =
           Inr (base_values u vals)"
proof -
  have get: "units_get name = Inr u"
    using assms by (simp add: units_get_def)
  have "\<And>v. to_base u v = Inr (case to_base u v of Inr b \<Rightarrow> b | Inl e \<Rightarrow> NaN)"
    using unit_entry_total(1) [OF assms] by (metis sum.case(2))
  then have "(\<lambda>v. ethen (units_get name) (\<lambda>u. to_base u v)) =
             (\<lambda>v. Inr (case to_base u v of Inr b \<Rightarrow> b | Inl e \<Rightarrow> NaN))"
    by (simp add: get ethen_simps)
  then show ?thesis by (simp add: map_err_Inr base_values_def)
qed


lemma batch_blank: "strip raw = [] \<Longrightarrow> batch cfg raw batch_unit = Inr []"
  by (simp add: batch_def)

lemma batch_no_values:
  "strip raw \<noteq> [] \<Longrightarrow> parsed_values (splitlines raw) = [] \<Longrightarrow>
   batch cfg raw batch_unit =
     Inr (line_warnings 1 (splitlines raw) @ [Info ''No valid numeric lines found.''])"
  by (simp add: batch_def parse_lines_eq ethen_simps)

lemma batch_table:
  assumes "map_of UNITS batch_unit = Some u" and "strip raw \<noteq> []"
    and "parsed_values (splitlines raw) \<noteq> []"
  shows "batch cfg raw batch_unit =
     Inr (line_warnings 1 (splitlines raw) @
          [ShowDataframe (shown_of cfg u batch_unit (parsed_values (splitlines raw))),
           DownloadButton (to_csv (df_batch_of cfg u batch_unit (parsed_values (splitlines raw))))])"
  using assms(2,3)
  by (simp add: batch_def parse_lines_eq ethen_simps to_base_total [OF assms(1)] fill_units_eq
      df_select_show df_batch_of_def shown_of_def)

lemma line_warnings_are_warnings:
  "e \<in> set (line_warnings i ls) \<Longrightarrow> \<exists>k l. e = Warning k l"
  by (auto simp add: line_warnings_def split: line_outcome.splits)

lemma skip_warnings:
  "\<forall>e \<in> set ws. \<exists>k l. e = Warning k l \<Longrightarrow>
   shown_table (ws @ es) = shown_table es \<and> csv_of (ws @ es) = csv_of es"
  by (induction ws) auto

lemma skip_line_warnings:
  "shown_table (line_warnings i ls @ es) = shown_table es"
  "csv_of (line_warnings i ls @ es) = csv_of es"
  using skip_warnings [of "line_warnings i ls" es] line_warnings_are_warnings
  by blast+

section \<open>Order of the rows\<close>

lemma cell_value_alt:
  assumes "map_of UNITS name = Some u"
  shows "cell_value u k v =
      (case ethen (units_get k)
         (\<lambda>w. from_base w (case to_base u v of Inr b \<Rightarrow> b | Inl e \<Rightarrow> NaN)) of
         Inr y \<Rightarrow> y | Inl e \<Rightarrow> NaN)"
proof -
  obtain b where b: "to_base u v = Inr b"
    using unit_entry_total(1) [OF assms] by blast
  show ?thesis by (simp add: cell_value_def b ethen_simps)
qed

lemma conv_cells:
  assumes "map_of UNITS name = Some u"
  shows "conv_column k (base_values u vals) = map (cell_value u k) vals"
  by (simp add: conv_column_def base_values_def comp_def cell_value_alt [OF assms])


lemma shown_of_rows:
  assumes "map_of UNITS batch_unit = Some u"
  shows "shown_of cfg u batch_unit vals =
     (''Input'', Floats vals) #
     (''Input Unit'', Strs (map (\<lambda>v. alias_get batch_unit) vals)) #
     map (\<lambda>k. (k @ '' (fmt)'', Strs (map (\<lambda>v. fmt cfg (cell_value u k v)) vals))) DISPLAY_UNITS"
proof -
  have a: "map (fmt cfg) (conv_column k (base_values u vals)) =
           map (\<lambda>v. fmt cfg (cell_value u k v)) vals" for k
    unfolding conv_cells [OF assms] by simp
  have b: "replicate (length vals) (alias_get batch_unit) = map (\<lambda>v. alias_get batch_unit) vals"
    by (simp add: map_replicate_const)
  show ?thesis unfolding shown_of_def a b ..
qed

lemma single_rows_gen:
  assumes "\<forall>k \<in> set ks. \<exists>w. units_get k = Inr w \<and> (\<forall>b. \<exists>y. from_base w b = Inr y)"
  shows "single_rows cfg b ks rows =
     Inr (rows @ map (\<lambda>k. \<lparr>Unit = k,
                     Value = (case ethen (units_get k) (\<lambda>w. from_base w b) of Inr y \<Rightarrow> y | Inl e \<Rightarrow> NaN),
                     Formatted = fmt cfg (case ethen (units_get k) (\<lambda>w. from_base w b) of Inr y \<Rightarrow> y | Inl e \<Rightarrow> NaN)\<rparr>)
            ks)"
  using assms
proof (induction ks arbitrary: rows)
  case Nil
  show ?case by simp
next
  case (Cons k ks)
  from Cons.prems obtain w y where w: "units_get k = Inr w" and y: "from_base w b = Inr y"
    by (metis list.set_intros(1))
  from Cons.prems have rest: "\<forall>k \<in> set ks. \<exists>w. units_get k = Inr w \<and> (\<forall>b. \<exists>y. from_base w b = Inr y)"
    by simp
  show ?case
    by (simp add: w y ethen_simps Cons.IH [OF rest])
qed

lemma display_units_total:
  "\<forall>k \<in> set DISPLAY_UNITS. \<exists>w. units_get k = Inr w \<and> (\<forall>b. \<exists>y. from_base w b = Inr y)"
  by (auto simp add: DISPLAY_UNITS_def units_get_simps lits fdiv_eq
      simp del: fmul.simps fdiv.simps)

lemma convert_single_cells:
  assumes "map_of UNITS batch_unit = Some u"
  shows "convert_single cfg v batch_unit =
     Inr \<lparr>input_line = ''**Input:** '' @ fmt cfg v @ '' '' @ alias_get batch_unit,
          df_single = map (\<lambda>k. \<lparr>Unit = k, Value = cell_value u k v,
                                 Formatted = fmt cfg (cell_value u k v)\<rparr>) DISPLAY_UNITS\<rparr>"
proof -
  have get: "units_get batch_unit = Inr u"
    using assms by (simp add: units_get_def)
  obtain b where b: "to_base u v = Inr b"
    using unit_entry_total(1) [OF assms] by blast
  have c: "\<And>k. cell_value u k v =
      (case ethen (units_get k) (\<lambda>w. from_base w b) of Inr y \<Rightarrow> y | Inl e \<Rightarrow> NaN)"
    by (simp add: cell_value_def b ethen_simps)
  show ?thesis
    unfolding convert_single_def Let_def get b ethen_simps
      single_rows_gen [OF display_units_total] c
    by simp
qed

lemma example_lines:
  "strip (''1'' @ [CHR 0x0A] @ ''abc'' @ [CHR 0x0A] @ ''2'') \<noteq> []"
  "parsed_values (splitlines (''1'' @ [CHR 0x0A] @ ''abc'' @ [CHR 0x0A] @ ''2'')) =
     [Finite False 1, Finite False 2]"
  "line_warnings (Suc 0) (splitlines (''1'' @ [CHR 0x0A] @ ''abc'' @ [CHR 0x0A] @ ''2'')) =
     [Warning 2 ''abc'']"
proof -
  have "line_warnings 1 (splitlines (''1'' @ [CHR 0x0A] @ ''abc'' @ [CHR 0x0A] @ ''2'')) =
     [Warning 2 ''abc'']"
    by code_simp
  then show "line_warnings (Suc 0) (splitlines (''1'' @ [CHR 0x0A] @ ''abc'' @ [CHR 0x0A] @ ''2'')) =
     [Warning 2 ''abc'']"
    by simp
qed code_simp+

text \<open>
  Claim C5.  The rows of the batch table stand in the order of the lines they come from,
  nothing is sorted.  Whenever the text is not blank and at least one line is a number, the
  page shows the warnings and then one table: its \<^verbatim>\<open>Input\<close> column is the list of the
  numbers in line order, and every other column is that list mapped value by value, so that
  the cell of row \<open>i\<close> under the display unit \<open>k\<close> is the formatted conversion of the
  \<open>i\<close>-th number, the same value and string that the single-value conversion gives for it.
  Otherwise no table is shown.  For the three lines \<^verbatim>\<open>1\<close>, \<^verbatim>\<open>abc\<close>, \<^verbatim>\<open>2\<close> the rows are those of
  1 and of 2, in that order, after exactly one warning, for line 2 with the text
  \<^verbatim>\<open>abc\<close>.
\<close>

theorem batch_rows_in_input_order:
  assumes "map_of UNITS batch_unit = Some u"
  shows
    "(strip raw \<noteq> [] \<and> parsed_values (splitlines raw) \<noteq> [] \<longrightarrow>
        (\<exists>f. batch cfg raw batch_unit =
           Inr (line_warnings 1 (splitlines raw) @
                [ShowDataframe
                   ((''Input'', Floats (parsed_values (splitlines raw))) #
                    (''Input Unit'',
                       Strs (map (\<lambda>v. alias_get batch_unit) (parsed_values (splitlines raw)))) #
                    map (\<lambda>k. (k @ '' (fmt)'',
                               Strs (map (\<lambda>v. fmt cfg (cell_value u k v))
                                       (parsed_values (splitlines raw)))))
                      DISPLAY_UNITS),
                 DownloadButton f]))) \<and>
     (strip raw = [] \<or> parsed_values (splitlines raw) = [] \<longrightarrow>
        shown_table (events_of (batch cfg raw batch_unit)) = None) \<and>
     convert_single cfg v batch_unit =
       Inr \<lparr>input_line = ''**Input:** '' @ fmt cfg v @ '' '' @ alias_get batch_unit,
            df_single = map (\<lambda>k. \<lparr>Unit = k, Value = cell_value u k v,
                                   Formatted = fmt cfg (cell_value u k v)\<rparr>) DISPLAY_UNITS\<rparr> \<and>
     (\<exists>f. batch cfg (''1'' @ [CHR 0x0A] @ ''abc'' @ [CHR 0x0A] @ ''2'') batch_unit =
        Inr [Warning 2 ''abc'',
             ShowDataframe
               ((''Input'', Floats [Finite False 1, Finite False 2]) #
                (''Input Unit'', Strs [alias_get batch_unit, alias_get batch_unit]) #
                map (\<lambda>k. (k @ '' (fmt)'',
                           Strs [fmt cfg (cell_value u k (Finite False 1)),
                                 fmt cfg (cell_value u k (Finite False 2))]))
                  DISPLAY_UNITS),
             DownloadButton f])"
proof (intro conjI impI)
  assume "strip raw \<noteq> [] \<and> parsed_values (splitlines raw) \<noteq> []"
  then show "\<exists>f. batch cfg raw batch_unit =
           Inr (line_warnings 1 (splitlines raw) @
                [ShowDataframe
                   ((''Input'', Floats (parsed_values (splitlines raw))) #
                    (''Input Unit'',
                       Strs (map (\<lambda>v. alias_get batch_unit) (parsed_values (splitlines raw)))) #
                    map (\<lambda>k. (k @ '' (fmt)'',
                               Strs (map (\<lambda>v. fmt cfg (cell_value u k v))
                                       (parsed_values (splitlines raw)))))
                      DISPLAY_UNITS),
                 DownloadButton f])"
    using batch_table [OF assms, of raw cfg] by (simp add: shown_of_rows [OF assms])
next
  assume "strip raw = [] \<or> parsed_values (splitlines raw) = []"
  then show "shown_table (events_of (batch cfg raw batch_unit)) = None"
    by (cases "strip raw = []")
       (auto simp add: batch_blank batch_no_values events_of_def skip_line_warnings)
next
  show "convert_single cfg v batch_unit =
       Inr \<lparr>input_line = ''**Input:** '' @ fmt cfg v @ '' '' @ alias_get batch_unit,
            df_single = map (\<lambda>k. \<lparr>Unit = k, Value = cell_value u k v,
                                   Formatted = fmt cfg (cell_value u k v)\<rparr>) DISPLAY_UNITS\<rparr>"
    by (rule convert_single_cells [OF assms])
next
  show "\<exists>f. batch cfg (''1'' @ [CHR 0x0A] @ ''abc'' @ [CHR 0x0A] @ ''2'') batch_unit =
        Inr [Warning 2 ''abc'',
             ShowDataframe
               ((''Input'', Floats [Finite False 1, Finite False 2]) #
                (''Input Unit'', Strs [alias_get batch_unit, alias_get batch_unit]) #
                map (\<lambda>k. (k @ '' (fmt)'',
                           Strs [fmt cfg (cell_value u k (Finite False 1)),
                                 fmt cfg (cell_value u k (Finite False 2))]))
                  DISPLAY_UNITS),
             DownloadButton f]"
    using batch_table [OF assms, of "''1'' @ [CHR 0x0A] @ ''abc'' @ [CHR 0x0A] @ ''2''" cfg]
    by (simp only: example_lines One_nat_def) (simp add: shown_of_rows [OF assms])
qed

lemma example_table:
  "map (\<lambda>k. (k @ '' (fmt)'',
             Strs [fmt \<lparr>decimals = 3, sci_for_large = True, thresh = 6\<rparr>
                     (cell_value \<lparr>to_base = (\<lambda>x. Inr x), from_base = (\<lambda>x. Inr x)\<rparr> k (Finite False 1)),
                   fmt \<lparr>decimals = 3, sci_for_large = True, thresh = 6\<rparr>
                     (cell_value \<lparr>to_base = (\<lambda>x. Inr x), from_base = (\<lambda>x. Inr x)\<rparr> k (Finite False 2))]))
     DISPLAY_UNITS =
   [(''L/min (fmt)'', Strs [''1.000'', ''2.000'']),
    (''mL/min (fmt)'', Strs [''1000.000'', ''2000.000'']),
    (micro # ''L/min (fmt)'', Strs [''1000000.000'', ''2.000e+06'']),
    (''nL/min (fmt)'', Strs [''1.000e+09'', ''2.000e+09'']),
    (''L/h (fmt)'', Strs [''60.000'', ''120.000'']),
    (''mL/h (fmt)'', Strs [''60000.000'', ''120000.000'']),
    (micro # ''L/h (fmt)'', Strs [''6.000e+07'', ''1.200e+08''])]"
  by code_simp

theorem batch_rows_in_input_order_witness:
  "map_of UNITS ''L/min'' = Some \<lparr>to_base = (\<lambda>x. Inr x), from_base = (\<lambda>x. Inr x)\<rparr> \<and>
   strip (''1'' @ [CHR 0x0A] @ ''abc'' @ [CHR 0x0A] @ ''2'') \<noteq> [] \<and>
   parsed_values (splitlines (''1'' @ [CHR 0x0A] @ ''abc'' @ [CHR 0x0A] @ ''2'')) \<noteq> [] \<and>
   (\<exists>f. batch \<lparr>decimals = 3, sci_for_large = True, thresh = 6\<rparr>
           (''1'' @ [CHR 0x0A] @ ''abc'' @ [CHR 0x0A] @ ''2'') ''L/min'' =
        Inr [Warning 2 ''abc'',
             ShowDataframe
               [(''Input'', Floats [Finite False 1, Finite False 2]),
                (''Input Unit'', Strs [''L/min'', ''L/min'']),
                (''L/min (fmt)'', Strs [''1.000'', ''2.000'']),
                (''mL/min (fmt)'', Strs [''1000.000'', ''2000.000'']),
                (micro # ''L/min (fmt)'', Strs [''1000000.000'', ''2.000e+06'']),
                (''nL/min (fmt)'', Strs [''1.000e+09'', ''2.000e+09'']),
                (''L/h (fmt)'', Strs [''60.000'', ''120.000'']),
                (''mL/h (fmt)'', Strs [''60000.000'', ''120000.000'']),
                (micro # ''L/h (fmt)'', Strs [''6.000e+07'', ''1.200e+08''])],
             DownloadButton f])"
proof -
  have h: "map_of UNITS ''L/min'' = Some \<lparr>to_base = (\<lambda>x. Inr x), from_base = (\<lambda>x. Inr x)\<rparr>"
    by (simp add: UNITS_def)
  have a: "alias_get ''L/min'' = ''L/min''"
    by (simp add: alias_get_def ALIAS_def)
  from batch_rows_in_input_order [OF h, of _ "\<lparr>decimals = 3, sci_for_large = True, thresh = 6\<rparr>"]
  have "\<exists>f. batch \<lparr>decimals = 3, sci_for_large = True, thresh = 6\<rparr>
           (''1'' @ [CHR 0x0A] @ ''abc'' @ [CHR 0x0A] @ ''2'') ''L/min'' =
        Inr [Warning 2 ''abc'',
             ShowDataframe
               ((''Input'', Floats [Finite False 1, Finite False 2]) #
                (''Input Unit'', Strs [alias_get ''L/min'', alias_get ''L/min'']) #
                map (\<lambda>k. (k @ '' (fmt)'',
                           Strs [fmt \<lparr>decimals = 3, sci_for_large = True, thresh = 6\<rparr>
                                   (cell_value \<lparr>to_base = (\<lambda>x. Inr x), from_base = (\<lambda>x. Inr x)\<rparr> k (Finite False 1)),
                                 fmt \<lparr>decimals = 3, sci_for_large = True, thresh = 6\<rparr>
                                   (cell_value \<lparr>to_base = (\<lambda>x. Inr x), from_base = (\<lambda>x. Inr x)\<rparr> k (Finite False 2))]))
                  DISPLAY_UNITS),
             DownloadButton f]"
    by blast
  then have t: "\<exists>f. batch \<lparr>decimals = 3, sci_for_large = True, thresh = 6\<rparr>
           (''1'' @ [CHR 0x0A] @ ''abc'' @ [CHR 0x0A] @ ''2'') ''L/min'' =
        Inr [Warning 2 ''abc'',
             ShowDataframe
               [(''Input'', Floats [Finite False 1, Finite False 2]),
                (''Input Unit'', Strs [''L/min'', ''L/min'']),
                (''L/min (fmt)'', Strs [''1.000'', ''2.000'']),
                (''mL/min (fmt)'', Strs [''1000.000'', ''2000.000'']),
                (micro # ''L/min (fmt)'', Strs [''1000000.000'', ''2.000e+06'']),
                (''nL/min (fmt)'', Strs [''1.000e+09'', ''2.000e+09'']),
                (''L/h (fmt)'', Strs [''60.000'', ''120.000'']),
                (''mL/h (fmt)'', Strs [''60000.000'', ''120000.000'']),
                (micro # ''L/h (fmt)'', Strs [''6.000e+07'', ''1.200e+08''])],
             DownloadButton f]"
    unfolding example_table a .
  have e2: "parsed_values (splitlines (''1'' @ [CHR 0x0A] @ ''abc'' @ [CHR 0x0A] @ ''2'')) \<noteq> []"
    unfolding example_lines(2) by simp
  show ?thesis
    by (intro conjI h example_lines(1) e2 t)
qed

section \<open>No number in the batch, and commas\<close>

lemma reports_skip:
  "reports_no_valid (line_warnings i ls @ es) = reports_no_valid es"
  using line_warnings_are_warnings [of _ i ls]
  by (auto simp add: reports_no_valid_def list_ex_iff)

text \<open>
  Claim C7, as stated, at an empty and at a blank text area: the batch block sits under
  \<^verbatim>\<open>if raw.strip():\<close>, so nothing at all is shown, the information message included.
\<close>

theorem blank_batch_counterexample:
  "events_of (batch \<lparr>decimals = 3, sci_for_large = True, thresh = 6\<rparr> '''' ''L/min'') = [] \<and>
   events_of (batch \<lparr>decimals = 3, sci_for_large = True, thresh = 6\<rparr> ''   '' ''L/min'') = [] \<and>
   \<not> reports_no_valid (events_of (batch \<lparr>decimals = 3, sci_for_large = True, thresh = 6\<rparr> ''   '' ''L/min''))"
proof -
  have "strip '''' = []" and "strip ''   '' = []" by code_simp+
  then show ?thesis
    by (simp add: batch_blank events_of_def reports_no_valid_def)
qed

text \<open>
  Claim C7, amended.  When the text area is empty or blank the batch section shows nothing:
  no message, no table, no warning.  When it is not blank and no line is a number, the
  section shows the warnings of the lines followed by the message
  \<^verbatim>\<open>No valid numeric lines found.\<close>, and neither a table nor a download button.
\<close>

theorem no_valid_input_report:
  "(strip raw = [] \<longrightarrow> batch cfg raw batch_unit = Inr []) \<and>
   (strip raw \<noteq> [] \<and> parsed_values (splitlines raw) = [] \<longrightarrow>
      batch cfg raw batch_unit =
        Inr (line_warnings 1 (splitlines raw) @ [Info ''No valid numeric lines found.'']) \<and>
      reports_no_valid (events_of (batch cfg raw batch_unit)) \<and>
      shown_table (events_of (batch cfg raw batch_unit)) = None \<and>
      csv_of (events_of (batch cfg raw batch_unit)) = None)"
  by (simp add: batch_blank batch_no_values events_of_def reports_skip skip_line_warnings
      reports_no_valid_def)

theorem no_valid_input_report_witness:
  "strip '' '' = [] \<and>
   batch \<lparr>decimals = 3, sci_for_large = True, thresh = 6\<rparr> '' '' ''L/min'' = Inr [] \<and>
   strip ''abc'' \<noteq> [] \<and> parsed_values (splitlines ''abc'') = [] \<and>
   batch \<lparr>decimals = 3, sci_for_large = True, thresh = 6\<rparr> ''abc'' ''L/min'' =
     Inr [Warning 1 ''abc'', Info ''No valid numeric lines found.'']"
proof -
  have a: "strip '' '' = []" "strip ''abc'' \<noteq> []" "parsed_values (splitlines ''abc'') = []"
    "line_warnings 1 (splitlines ''abc'') = [Warning 1 ''abc'']"
    by code_simp+
  from no_valid_input_report [of "'' ''" "\<lparr>decimals = 3, sci_for_large = True, thresh = 6\<rparr>" "''L/min''"]
    no_valid_input_report [of "''abc''" "\<lparr>decimals = 3, sci_for_large = True, thresh = 6\<rparr>" "''L/min''"]
    a
  show ?thesis by simp
qed

text \<open>
  Claim C10, as stated, at the line \<^verbatim>\<open>, ,\<close>: it holds only commas and white space, but the
  blank between the commas is left after \<^verbatim>\<open>strip()\<close> and \<^verbatim>\<open>replace\<close>, so the line is not
  empty, \<^verbatim>\<open>float\<close> rejects it and the line is warned about.
\<close>

theorem inner_space_counterexample:
  "list_all (\<lambda>c. c = CHR '','' \<or> py_isspace c) '', ,'' \<and>
   classify '', ,'' = Rejected \<and>
   parse_lines 1 ['', ,''] [] [] = Inr ([], [Warning 1 '', ,''])"
  by code_simp

text \<open>
  Claim C10, amended.  Every comma of a line is removed, wherever it stands: the line
  \<^verbatim>\<open>1,2\<close> is the number 12.  A line that holds only commas once it is trimmed is passed over
  without a warning.
\<close>

theorem comma_stripping:
  "CHR '','' \<notin> set (remove_commas s) \<and>
   remove_commas (xs @ '','' @ ys) = remove_commas xs @ remove_commas ys \<and>
   classify ''1,2'' = Parsed (Finite False 12) \<and>
   (list_all (\<lambda>c. c = CHR '','') (strip line) \<longrightarrow> classify line = Skipped)"
proof -
  have a: "classify ''1,2'' = Parsed (Finite False 12)" by code_simp
  have b: "list_all (\<lambda>c. c = CHR '','') (strip line) \<longrightarrow> classify line = Skipped"
    by (auto simp add: classify_def remove_commas_def list_all_iff filter_empty_conv)
  from a b show ?thesis by (simp add: remove_commas_def)
qed

theorem comma_stripping_witness:
  "list_all (\<lambda>c. c = CHR '','') (strip ''  ,,, '') \<and> classify ''  ,,, '' = Skipped \<and>
   classify ''1,2'' = Parsed (Finite False 12)"
proof -
  have a: "list_all (\<lambda>c. c = CHR '','') (strip ''  ,,, '')" by code_simp
  from comma_stripping [of "[]" "[]" "[]" "''  ,,, ''"] a show ?thesis by simp
qed

end
